theory Spec2Isabelle
  imports Main "HOL-Library.Multiset"
begin

section \<open>The expression nodes the simplifier works on\<close>

text \<open>
  The header \<^verbatim>\<open>torch/csrc/jit/tensorexpr/ir_simplifier.h\<close> declares the helper
  functions that compute the dtype of a Term or Polynomial, the classes Term, Polynomial
  and RoundOff, the two mutators PolynomialTransformer and TermExpander, and the
  entry point IRSimplifier. The node hierarchy itself (\<^verbatim>\<open>ir.h\<close>, \<^verbatim>\<open>types.h\<close>) is
  included by the header and is given here as far as the header reads it: a node has
  a dtype (a scalar type and a lane count), answers \<^verbatim>\<open>isConstant()\<close>, and a binary
  node has a kind, a left and a right operand.

  Nodes are immutable once built, so a \<^verbatim>\<open>const Expr*\<close> is the value of the node it
  points to; the pointer comparison \<^verbatim>\<open>lhs != lhs_new\<close> is inequality of values.
\<close>

text \<open>Modelled from the spec: the scalar element types of a dtype (section 6,
  \<^verbatim>\<open>Dtype{scalar_type, lanes}\<close>).\<close>

datatype ScalarType =
  Bool_t | Byte_t | Char_t | Short_t | Int_t | Long_t | Half_t | Float_t | Double_t

text \<open>Modelled from the spec: the class \<^verbatim>\<open>Dtype\<close> of \<^verbatim>\<open>types.h\<close>, "scalar element type +
  lane count". The header builds one with \<^verbatim>\<open>Dtype(scalar_type, lanes)\<close> and reads it with
  \<^verbatim>\<open>scalar_type()\<close> and \<^verbatim>\<open>lanes()\<close>; the lane count is a C++ \<^verbatim>\<open>int\<close> that is only copied,
  never computed with.\<close>

datatype Dtype = Dtype (scalar_type: ScalarType) (lanes: int)

text \<open>The failures of the header: \<^verbatim>\<open>throw malformed_input(msg)\<close>, a failed
  \<^verbatim>\<open>CHECK(...)\<close>, and whatever a collaborator (the evaluator, a child mutator, the
  node factory) raises, which the header never catches.\<close>

datatype error = malformed_input string | CHECK_failed | fatal string

text \<open>Modelled from the spec: the binary node classes of \<^verbatim>\<open>ir.h\<close> (section 6: Add, Sub,
  Mul, Div, Mod, And, Xor, Lshift, Rshift, Max, Min), to which the header adds RoundOff.
  Max and Min carry the flag \<^verbatim>\<open>propagate_nans()\<close>.\<close>

datatype BinOp =
  Add | Sub | Mul | Div | Mod | And | Xor | Lshift | Rshift
  | MaxOp (propagate_nans: bool) | MinOp (propagate_nans: bool) | RoundOff

text \<open>Modelled from the spec: the enumeration \<^verbatim>\<open>IRNodeType\<close> of \<^verbatim>\<open>ir.h\<close>: the kinds of
  the binary nodes, and the kinds the header names (\<^verbatim>\<open>kBroadcast\<close>, \<^verbatim>\<open>kRamp\<close>,
  \<^verbatim>\<open>kRoundOff\<close>).\<close>

datatype IRNodeType =
  kAdd | kSub | kMul | kDiv | kMod | kMax | kMin | kAnd | kLshift | kRshift | kXor
  | kBroadcast | kRamp | kRoundOff

text \<open>
  Modelled from the spec: the expression nodes of \<^verbatim>\<open>ir.h\<close> (section 3: every node
  carries a dtype and the "is a literal constant" predicate). \<open>Imm\<close> is a literal (the
  payload of a floating literal is outside this development; integer payloads suffice
  for every statement below), \<open>Var\<close> a named variable, \<open>BinaryOp\<close> a
  \<^verbatim>\<open>BinaryOpNode<Op>\<close> with the dtype it was built with.

  Term and Polynomial are the classes of the header, which derive from the node base:
  a Term is \<^verbatim>\<open>{variables_, scalar_}\<close> over expressions, a Polynomial
  \<^verbatim>\<open>{variables_, scalar_}\<close> over Terms, each with the dtype its constructor hands to
  the base class. Their member \<^verbatim>\<open>hasher_\<close> is a reference to the transformer's hash
  provider and is passed to the functions that use it.
\<close>

datatype Expr =
    Imm Dtype int
  | Var Dtype string
  | BinaryOp BinOp Dtype Expr Expr
  | TermNode Term
  | PolynomialNode Polynomial
and Term = Term (term_dtype: Dtype) (term_scalar: Expr) (term_variables: "Expr list")
and Polynomial =
  Polynomial (poly_dtype: Dtype) (poly_scalar: Expr) (poly_variables: "Term list")

text \<open>Modelled from the spec: \<^verbatim>\<open>dtype()\<close> of the node base, the dtype stored in the
  node.\<close>

fun dtype :: "Expr \<Rightarrow> Dtype" where
  "dtype (Imm d _) = d"
| "dtype (Var d _) = d"
| "dtype (BinaryOp _ d _ _) = d"
| "dtype (TermNode t) = term_dtype t"
| "dtype (PolynomialNode p) = poly_dtype p"

text \<open>Modelled from the spec: \<^verbatim>\<open>isConstant()\<close>, the "is a literal constant" predicate of
  the node base: true of the literals only.\<close>

fun isConstant :: "Expr \<Rightarrow> bool" where
  "isConstant (Imm _ _) = True"
| "isConstant _ = False"

text \<open>Modelled from the spec: \<^verbatim>\<open>expr_type()\<close> of a binary node, the kind of its
  class.\<close>

fun expr_type :: "BinOp \<Rightarrow> IRNodeType" where
  "expr_type Add = kAdd"
| "expr_type Sub = kSub"
| "expr_type Mul = kMul"
| "expr_type Div = kDiv"
| "expr_type Mod = kMod"
| "expr_type And = kAnd"
| "expr_type Xor = kXor"
| "expr_type Lshift = kLshift"
| "expr_type Rshift = kRshift"
| "expr_type (MaxOp _) = kMax"
| "expr_type (MinOp _) = kMin"
| "expr_type RoundOff = kRoundOff"

section \<open>Dtype promotion helpers\<close>

text \<open>
  \<^verbatim>\<open>promoteTypes(a, b)\<close> comes from \<^verbatim>\<open>types.h\<close>; every function below takes it as
  its first argument, a function from two dtypes to a dtype as section 6 of the spec
  gives it.

  \<^verbatim>\<open>promoteTypesVec(s, v)\<close>: the loop over \<open>v\<close> with its local state \<open>t\<close> and
  \<open>first\<close>.
\<close>

fun promoteTypesVec_s_loop ::
  "(Dtype \<Rightarrow> Dtype \<Rightarrow> Dtype) \<Rightarrow> Expr list \<Rightarrow> Dtype \<Rightarrow> bool \<Rightarrow> Dtype" where
  "promoteTypesVec_s_loop promoteTypes [] t first = t"
| "promoteTypesVec_s_loop promoteTypes (e # v) t first =
     (let t1 = (if first then Dtype (scalar_type t) (lanes (dtype e)) else t);
          t2 = promoteTypes t1 (dtype e)
      in promoteTypesVec_s_loop promoteTypes v t2 False)"

definition promoteTypesVec_s ::
  "(Dtype \<Rightarrow> Dtype \<Rightarrow> Dtype) \<Rightarrow> Expr \<Rightarrow> Expr list \<Rightarrow> Dtype" where
  "promoteTypesVec_s promoteTypes s v = promoteTypesVec_s_loop promoteTypes v (dtype s) True"

text \<open>\<^verbatim>\<open>promoteTypesVec(v)\<close>: throws on the empty vector, otherwise starts from
  \<^verbatim>\<open>v[0]->dtype()\<close> and promotes with every element, the first one included.\<close>

fun promoteTypesVec_loop ::
  "(Dtype \<Rightarrow> Dtype \<Rightarrow> Dtype) \<Rightarrow> Expr list \<Rightarrow> Dtype \<Rightarrow> Dtype" where
  "promoteTypesVec_loop promoteTypes [] t = t"
| "promoteTypesVec_loop promoteTypes (e # v) t =
     promoteTypesVec_loop promoteTypes v (promoteTypes t (dtype e))"

definition promoteTypesVec ::
  "(Dtype \<Rightarrow> Dtype \<Rightarrow> Dtype) \<Rightarrow> Expr list \<Rightarrow> error + Dtype" where
  "promoteTypesVec promoteTypes v =
     (case v of
        [] \<Rightarrow> Inl (malformed_input ''empty list of types'')
      | v0 # _ \<Rightarrow> Inr (promoteTypesVec_loop promoteTypes v (dtype v0)))"

text \<open>\<^verbatim>\<open>promoteTypesMap(s, m)\<close>: the same loop as \<^verbatim>\<open>promoteTypesVec(s, v)\<close> over the
  entries of an \<^verbatim>\<open>unordered_map\<close>, given here as the list of its entries in iteration
  order; the loop reads \<^verbatim>\<open>e.second\<close>.\<close>

type_synonym SimplifierHashType = nat

fun promoteTypesMap_loop ::
  "(Dtype \<Rightarrow> Dtype \<Rightarrow> Dtype) \<Rightarrow> (SimplifierHashType \<times> Expr) list \<Rightarrow> Dtype \<Rightarrow> bool \<Rightarrow> Dtype"
  where
  "promoteTypesMap_loop promoteTypes [] t first = t"
| "promoteTypesMap_loop promoteTypes (e # m) t first =
     (let t1 = (if first then Dtype (scalar_type t) (lanes (dtype (snd e))) else t);
          t2 = promoteTypes t1 (dtype (snd e))
      in promoteTypesMap_loop promoteTypes m t2 False)"

definition promoteTypesMap ::
  "(Dtype \<Rightarrow> Dtype \<Rightarrow> Dtype) \<Rightarrow> Expr \<Rightarrow> (SimplifierHashType \<times> Expr) list \<Rightarrow> Dtype" where
  "promoteTypesMap promoteTypes s m = promoteTypesMap_loop promoteTypes m (dtype s) True"

text \<open>\<^verbatim>\<open>promoteTypesVar(e, es...)\<close>: the parameter pack is the list \<open>es\<close>; the
  one-argument overload is the empty pack.\<close>

fun promoteTypesVar :: "(Dtype \<Rightarrow> Dtype \<Rightarrow> Dtype) \<Rightarrow> Expr \<Rightarrow> Expr list \<Rightarrow> Dtype" where
  "promoteTypesVar promoteTypes e [] = dtype e"
| "promoteTypesVar promoteTypes e (e' # es) =
     (let lhs = dtype e;
          rhs = promoteTypesVar promoteTypes e' es;
          lhs' = (if isConstant e then Dtype (scalar_type lhs) (lanes rhs) else lhs)
      in promoteTypes lhs' rhs)"

section \<open>Term and Polynomial\<close>

text \<open>
  A \<^verbatim>\<open>HashProvider&\<close> is used by the classes only through \<^verbatim>\<open>hash(e)\<close>, which is
  deterministic in the structure of \<open>e\<close>: the argument \<open>hasher\<close> below is that function.

  Modelled from the spec: \<^verbatim>\<open>Term::sort()\<close>, declared in the header and defined outside
  it. The spec keeps the factors of a Term "in a canonical (hash-sorted) order": the
  variables are sorted by their hash.
\<close>

definition Term_sort :: "(Expr \<Rightarrow> SimplifierHashType) \<Rightarrow> Expr list \<Rightarrow> Expr list" where
  "Term_sort hasher vs = sort_key hasher vs"

text \<open>Modelled from the spec: \<^verbatim>\<open>Term::hashVars()\<close>, declared in the header and defined
  outside it. It "hashes only the non-scalar components": the hashes of the variables,
  combined by the provider's \<open>hash_combine\<close>; the scalar is not read.\<close>

definition Term_hashVars ::
  "(Expr \<Rightarrow> SimplifierHashType) \<Rightarrow> (SimplifierHashType list \<Rightarrow> SimplifierHashType) \<Rightarrow> Term
   \<Rightarrow> SimplifierHashType" where
  "Term_hashVars hasher hash_combine t = hash_combine (map hasher (term_variables t))"

text \<open>Modelled from the spec: \<^verbatim>\<open>Polynomial::sort()\<close>, declared in the header and defined
  outside it: the "same sort/uniqueness invariant as Term, but over Terms' hashVars".\<close>

definition Polynomial_sort ::
  "(Expr \<Rightarrow> SimplifierHashType) \<Rightarrow> (SimplifierHashType list \<Rightarrow> SimplifierHashType) \<Rightarrow> Term list
   \<Rightarrow> Term list" where
  "Polynomial_sort hasher hash_combine ts = sort_key (Term_hashVars hasher hash_combine) ts"


text \<open>Modelled from the spec: \<^verbatim>\<open>getImmediateByType(dtype, value)\<close> of the node
  library, the "literal-construction helper" that builds a typed constant.\<close>

definition getImmediateByType :: "Dtype \<Rightarrow> int \<Rightarrow> Expr" where
  "getImmediateByType d v = Imm d v"

text \<open>\<^verbatim>\<open>addComponent(e, es...)\<close> and \<^verbatim>\<open>addTerm(t, ts...)\<close>: one \<^verbatim>\<open>push_back\<close> per
  argument, left to right.\<close>

fun addComponent :: "Expr list \<Rightarrow> Expr list \<Rightarrow> Expr list" where
  "addComponent variables [] = variables"
| "addComponent variables (e # es) = addComponent (variables @ [e]) es"

fun addTerm :: "Term list \<Rightarrow> Term list \<Rightarrow> Term list" where
  "addTerm variables [] = variables"
| "addTerm variables (t # ts) = addTerm (variables @ [t]) ts"

text \<open>
  The three constructors of Term. In each, the base class is initialised first (the
  dtype), then the members, then the body runs.

  \<^verbatim>\<open>Term(hasher, s, ts...)\<close>: the only one whose body starts with
  \<^verbatim>\<open>CHECK(s->isConstant())\<close>.
\<close>

definition Term_variadic ::
  "(Dtype \<Rightarrow> Dtype \<Rightarrow> Dtype) \<Rightarrow> (Expr \<Rightarrow> SimplifierHashType) \<Rightarrow> Expr \<Rightarrow> Expr list
   \<Rightarrow> error + Term" where
  "Term_variadic promoteTypes hasher s ts =
     (let d = promoteTypesVar promoteTypes s ts in
      if \<not> isConstant s then Inl CHECK_failed
      else Inr (Term d s (Term_sort hasher (addComponent [] ts))))"

text \<open>\<^verbatim>\<open>Term(hasher, s, std::vector<const Expr*> v)\<close>: the body is \<^verbatim>\<open>sort()\<close> alone.\<close>

definition Term_vector ::
  "(Dtype \<Rightarrow> Dtype \<Rightarrow> Dtype) \<Rightarrow> (Expr \<Rightarrow> SimplifierHashType) \<Rightarrow> Expr \<Rightarrow> Expr list
   \<Rightarrow> error + Term" where
  "Term_vector promoteTypes hasher s v =
     (let d = promoteTypesVec_s promoteTypes s v in
      Inr (Term d s (Term_sort hasher v)))"

text \<open>\<^verbatim>\<open>Term(hasher, s, varmap)\<close>: the body adds \<^verbatim>\<open>p.second\<close> of every entry, then
  sorts.\<close>

definition Term_map ::
  "(Dtype \<Rightarrow> Dtype \<Rightarrow> Dtype) \<Rightarrow> (Expr \<Rightarrow> SimplifierHashType) \<Rightarrow> Expr
   \<Rightarrow> (SimplifierHashType \<times> Expr) list \<Rightarrow> error + Term" where
  "Term_map promoteTypes hasher s varmap =
     (let d = promoteTypesMap promoteTypes s varmap in
      Inr (Term d s (Term_sort hasher (fold (\<lambda>p variables. addComponent variables [snd p]) varmap []))))"

text \<open>
  The four constructors of Polynomial. \<^verbatim>\<open>Polynomial(hasher, s, ts...)\<close> needs at least
  one Term (\<^verbatim>\<open>addTerm\<close> has no overload without arguments): \<open>t\<close> and the pack \<open>ts\<close>.
\<close>

definition Polynomial_variadic ::
  "(Dtype \<Rightarrow> Dtype \<Rightarrow> Dtype) \<Rightarrow> (Expr \<Rightarrow> SimplifierHashType)
   \<Rightarrow> (SimplifierHashType list \<Rightarrow> SimplifierHashType) \<Rightarrow> Expr \<Rightarrow> Term \<Rightarrow> Term list
   \<Rightarrow> error + Polynomial" where
  "Polynomial_variadic promoteTypes hasher hash_combine s t ts =
     (let d = promoteTypesVar promoteTypes s (map TermNode (t # ts)) in
      if \<not> isConstant s then Inl CHECK_failed
      else Inr (Polynomial d s (Polynomial_sort hasher hash_combine (addTerm [] (t # ts)))))"

definition Polynomial_vector ::
  "(Dtype \<Rightarrow> Dtype \<Rightarrow> Dtype) \<Rightarrow> (Expr \<Rightarrow> SimplifierHashType)
   \<Rightarrow> (SimplifierHashType list \<Rightarrow> SimplifierHashType) \<Rightarrow> Expr \<Rightarrow> Term list
   \<Rightarrow> error + Polynomial" where
  "Polynomial_vector promoteTypes hasher hash_combine s v =
     (let d = promoteTypesVec_s promoteTypes s (map TermNode v) in
      Inr (Polynomial d s (Polynomial_sort hasher hash_combine v)))"

text \<open>\<^verbatim>\<open>Polynomial(hasher, terms)\<close>, the "helper constructor for list of terms with no
  scalar component": the dtype comes from \<^verbatim>\<open>promoteTypesVec(terms)\<close>, whose exception
  leaves the constructor; \<^verbatim>\<open>scalar_\<close> is initialised after the base class, from
  \<^verbatim>\<open>dtype()\<close>.\<close>

definition Polynomial_terms ::
  "(Dtype \<Rightarrow> Dtype \<Rightarrow> Dtype) \<Rightarrow> (Expr \<Rightarrow> SimplifierHashType)
   \<Rightarrow> (SimplifierHashType list \<Rightarrow> SimplifierHashType) \<Rightarrow> Term list \<Rightarrow> error + Polynomial" where
  "Polynomial_terms promoteTypes hasher hash_combine terms =
     (case promoteTypesVec promoteTypes (map TermNode terms) of
        Inl err \<Rightarrow> Inl err
      | Inr d \<Rightarrow>
          Inr (Polynomial d (getImmediateByType d 0) (Polynomial_sort hasher hash_combine terms)))"

definition Polynomial_map ::
  "(Dtype \<Rightarrow> Dtype \<Rightarrow> Dtype) \<Rightarrow> (Expr \<Rightarrow> SimplifierHashType)
   \<Rightarrow> (SimplifierHashType list \<Rightarrow> SimplifierHashType) \<Rightarrow> Expr
   \<Rightarrow> (SimplifierHashType \<times> Term) list \<Rightarrow> error + Polynomial" where
  "Polynomial_map promoteTypes hasher hash_combine s varmap =
     (let d = promoteTypesMap promoteTypes s (map (\<lambda>p. (fst p, TermNode (snd p))) varmap) in
      Inr (Polynomial d s
             (Polynomial_sort hasher hash_combine
                (fold (\<lambda>p variables. addTerm variables [snd p]) varmap []))))"

section \<open>PolynomialTransformer: the generic binary fold\<close>

text \<open>
  A mutator is the function \<^verbatim>\<open>e->accept_mutator(mutator)\<close>: it takes the node and the
  mutator object's state and returns the new node and state, or fails.
\<close>

type_synonym ('n, 'm) IRMutator = "'n \<Rightarrow> 'm \<Rightarrow> error + ('n \<times> 'm)"

text \<open>Modelled from the spec: \<^verbatim>\<open>newBinaryOpOfType(expr_type, lhs, rhs, option)\<close> of the
  mutator library, which rebuilds a binary node of the given kind from two operands;
  \<open>option\<close> is the NaN-propagation flag of a Max or Min. The dtype of the new node is
  "the promotion of its constituents' dtypes". Kinds that are not plain binary
  operators are refused.\<close>

fun newBinaryOpOfType ::
  "(Dtype \<Rightarrow> Dtype \<Rightarrow> Dtype) \<Rightarrow> IRNodeType \<Rightarrow> Expr \<Rightarrow> Expr \<Rightarrow> bool \<Rightarrow> error + Expr" where
  "newBinaryOpOfType promoteTypes kAdd lhs rhs option =
     Inr (BinaryOp Add (promoteTypes (dtype lhs) (dtype rhs)) lhs rhs)"
| "newBinaryOpOfType promoteTypes kSub lhs rhs option =
     Inr (BinaryOp Sub (promoteTypes (dtype lhs) (dtype rhs)) lhs rhs)"
| "newBinaryOpOfType promoteTypes kMul lhs rhs option =
     Inr (BinaryOp Mul (promoteTypes (dtype lhs) (dtype rhs)) lhs rhs)"
| "newBinaryOpOfType promoteTypes kDiv lhs rhs option =
     Inr (BinaryOp Div (promoteTypes (dtype lhs) (dtype rhs)) lhs rhs)"
| "newBinaryOpOfType promoteTypes kMod lhs rhs option =
     Inr (BinaryOp Mod (promoteTypes (dtype lhs) (dtype rhs)) lhs rhs)"
| "newBinaryOpOfType promoteTypes kMax lhs rhs option =
     Inr (BinaryOp (MaxOp option) (promoteTypes (dtype lhs) (dtype rhs)) lhs rhs)"
| "newBinaryOpOfType promoteTypes kMin lhs rhs option =
     Inr (BinaryOp (MinOp option) (promoteTypes (dtype lhs) (dtype rhs)) lhs rhs)"
| "newBinaryOpOfType promoteTypes kAnd lhs rhs option =
     Inr (BinaryOp And (promoteTypes (dtype lhs) (dtype rhs)) lhs rhs)"
| "newBinaryOpOfType promoteTypes kXor lhs rhs option =
     Inr (BinaryOp Xor (promoteTypes (dtype lhs) (dtype rhs)) lhs rhs)"
| "newBinaryOpOfType promoteTypes kLshift lhs rhs option =
     Inr (BinaryOp Lshift (promoteTypes (dtype lhs) (dtype rhs)) lhs rhs)"
| "newBinaryOpOfType promoteTypes kRshift lhs rhs option =
     Inr (BinaryOp Rshift (promoteTypes (dtype lhs) (dtype rhs)) lhs rhs)"
| "newBinaryOpOfType promoteTypes kBroadcast lhs rhs option = Inl (fatal ''unsupported expr_type'')"
| "newBinaryOpOfType promoteTypes kRamp lhs rhs option = Inl (fatal ''unsupported expr_type'')"
| "newBinaryOpOfType promoteTypes kRoundOff lhs rhs option = Inl (fatal ''unsupported expr_type'')"

text \<open>
  \<^verbatim>\<open>mutateBinaryOp(v, mutator, option)\<close>. The node \<open>v\<close> is
  \<open>BinaryOp op d lhs rhs\<close>; \<open>evaluateOp\<close> is the constant-folding evaluator of
  \<^verbatim>\<open>eval.h\<close>. The left operand is mutated before the right one, and the state of
  the mutator is threaded through both calls.
\<close>

definition mutateBinaryOp ::
  "(Dtype \<Rightarrow> Dtype \<Rightarrow> Dtype) \<Rightarrow> (Expr \<Rightarrow> error + Expr) \<Rightarrow> BinOp \<Rightarrow> Dtype \<Rightarrow> Expr \<Rightarrow> Expr
   \<Rightarrow> (Expr, 'm) IRMutator \<Rightarrow> bool \<Rightarrow> 'm \<Rightarrow> error + (Expr \<times> 'm)" where
  "mutateBinaryOp promoteTypes evaluateOp op d lhs rhs mutator option m =
     (let v = BinaryOp op d lhs rhs in
      case mutator lhs m of
        Inl err \<Rightarrow> Inl err
      | Inr (lhs_new, m1) \<Rightarrow>
      (case mutator rhs m1 of
        Inl err \<Rightarrow> Inl err
      | Inr (rhs_new, m2) \<Rightarrow>
      (case (if lhs \<noteq> lhs_new \<or> rhs \<noteq> rhs_new
             then newBinaryOpOfType promoteTypes (expr_type op) lhs_new rhs_new option
             else Inr v) of
        Inl err \<Rightarrow> Inl err
      | Inr node \<Rightarrow>
          if \<not> isConstant lhs_new \<or> \<not> isConstant rhs_new then Inr (node, m2)
          else (case evaluateOp node of
                  Inl err \<Rightarrow> Inl err
                | Inr folded \<Rightarrow> Inr (folded, m2)))))"

text \<open>
  The state of a PolynomialTransformer is its member \<^verbatim>\<open>hasher_\<close>; a TermExpander holds
  the pointer \<^verbatim>\<open>simplifier_\<close> to the transformer it was built for.
\<close>

record 'h PolynomialTransformer =
  transformer_hasher :: 'h

record 'h TermExpander =
  expander_simplifier :: "'h PolynomialTransformer"

text \<open>
  \<^verbatim>\<open>PolynomialTransformer::mutate\<close> on a binary node, by node class. The header
  defines the overloads for Mod, And, Xor, Lshift, Rshift, Max and Min; the overloads
  for Add, Sub, Mul and Div are declared there and defined outside it, and RoundOff
  is inherited: those are the argument \<open>mutate_outside\<close>. \<open>this\<close> is the
  transformer as a mutator.
\<close>

fun PolynomialTransformer_mutate ::
  "(Dtype \<Rightarrow> Dtype \<Rightarrow> Dtype) \<Rightarrow> (Expr \<Rightarrow> error + Expr)
   \<Rightarrow> (BinOp \<Rightarrow> Dtype \<Rightarrow> Expr \<Rightarrow> Expr \<Rightarrow> 'h PolynomialTransformer
        \<Rightarrow> error + (Expr \<times> 'h PolynomialTransformer))
   \<Rightarrow> (Expr, 'h PolynomialTransformer) IRMutator
   \<Rightarrow> BinOp \<Rightarrow> Dtype \<Rightarrow> Expr \<Rightarrow> Expr \<Rightarrow> 'h PolynomialTransformer
   \<Rightarrow> error + (Expr \<times> 'h PolynomialTransformer)" where
  "PolynomialTransformer_mutate promoteTypes evaluateOp mutate_outside this Mod d lhs rhs m =
     mutateBinaryOp promoteTypes evaluateOp Mod d lhs rhs this False m"
| "PolynomialTransformer_mutate promoteTypes evaluateOp mutate_outside this And d lhs rhs m =
     mutateBinaryOp promoteTypes evaluateOp And d lhs rhs this False m"
| "PolynomialTransformer_mutate promoteTypes evaluateOp mutate_outside this Xor d lhs rhs m =
     mutateBinaryOp promoteTypes evaluateOp Xor d lhs rhs this False m"
| "PolynomialTransformer_mutate promoteTypes evaluateOp mutate_outside this Lshift d lhs rhs m =
     mutateBinaryOp promoteTypes evaluateOp Lshift d lhs rhs this False m"
| "PolynomialTransformer_mutate promoteTypes evaluateOp mutate_outside this Rshift d lhs rhs m =
     mutateBinaryOp promoteTypes evaluateOp Rshift d lhs rhs this False m"
| "PolynomialTransformer_mutate promoteTypes evaluateOp mutate_outside this (MaxOp pn) d lhs rhs m =
     mutateBinaryOp promoteTypes evaluateOp (MaxOp pn) d lhs rhs this pn m"
| "PolynomialTransformer_mutate promoteTypes evaluateOp mutate_outside this (MinOp pn) d lhs rhs m =
     mutateBinaryOp promoteTypes evaluateOp (MinOp pn) d lhs rhs this pn m"
| "PolynomialTransformer_mutate promoteTypes evaluateOp mutate_outside this op d lhs rhs m =
     mutate_outside op d lhs rhs m"

text \<open>Modelled from the spec: the evaluator \<^verbatim>\<open>evaluateOp(node)\<close> of \<^verbatim>\<open>eval.h\<close>, which
  "given a node whose operands are all literal, returns a literal result node". Given
  are the maximum and the minimum of two integer literals and the remainder of a
  non-negative literal by a positive one, whose values do not depend on the machine
  representation. It is the evaluator of the worked examples only: every general
  statement below holds for any evaluator.\<close>

fun evaluateOp_literals :: "Expr \<Rightarrow> error + Expr" where
  "evaluateOp_literals (BinaryOp op d (Imm _ a) (Imm _ b)) =
     (case op of
        MaxOp _ \<Rightarrow> Inr (Imm d (max a b))
      | MinOp _ \<Rightarrow> Inr (Imm d (min a b))
      | Mod \<Rightarrow> if 0 \<le> a \<and> 0 < b then Inr (Imm d (a mod b)) else Inl (fatal ''not folded'')
      | _ \<Rightarrow> Inl (fatal ''not folded''))"
| "evaluateOp_literals _ = Inl (fatal ''not folded'')"

section \<open>IRSimplifier\<close>

text \<open>
  \<^verbatim>\<open>IRSimplifier::simplify(const Expr* e)\<close>. \<open>new_HashProvider\<close> is the
  default-constructed hash provider of a new transformer; \<open>transformer\<close> and
  \<open>expander\<close> are the two mutator classes, whose \<^verbatim>\<open>mutate\<close> overloads for Add, Sub,
  Mul, Div, Term, Polynomial and RoundOff are defined outside the header. The expander
  is built from the address of \<open>simplifier\<close>, so it sees the transformer as the first
  pass left it.
\<close>

definition IRSimplifier_simplify ::
  "'h \<Rightarrow> (Expr, 'h PolynomialTransformer) IRMutator \<Rightarrow> (Expr, 'h TermExpander) IRMutator
   \<Rightarrow> Expr \<Rightarrow> error + Expr" where
  "IRSimplifier_simplify new_HashProvider transformer expander e =
     (let simplifier = \<lparr>transformer_hasher = new_HashProvider\<rparr> in
      case transformer e simplifier of
        Inl err \<Rightarrow> Inl err
      | Inr (e1, simplifier1) \<Rightarrow>
          (let expander0 = \<lparr>expander_simplifier = simplifier1\<rparr> in
           case expander e1 expander0 of
             Inl err \<Rightarrow> Inl err
           | Inr (e2, expander1) \<Rightarrow> Inr e2))"

text \<open>\<^verbatim>\<open>IRSimplifier::simplify(const ExprHandle& e)\<close> wraps the result of the first
  overload on \<^verbatim>\<open>e.node()\<close>.\<close>

datatype ExprHandle = ExprHandle (node: Expr)

definition IRSimplifier_simplify_ExprHandle ::
  "'h \<Rightarrow> (Expr, 'h PolynomialTransformer) IRMutator \<Rightarrow> (Expr, 'h TermExpander) IRMutator
   \<Rightarrow> ExprHandle \<Rightarrow> error + ExprHandle" where
  "IRSimplifier_simplify_ExprHandle new_HashProvider transformer expander e =
     (case IRSimplifier_simplify new_HashProvider transformer expander (node e) of
        Inl err \<Rightarrow> Inl err
      | Inr e' \<Rightarrow> Inr (ExprHandle e'))"

text \<open>\<^verbatim>\<open>IRSimplifier::simplify(Stmt* s)\<close>: the same two passes over a statement; the
  statement classes are those of the node library, the type \<open>'stmt\<close>.\<close>

definition IRSimplifier_simplify_Stmt ::
  "'h \<Rightarrow> ('stmt, 'h PolynomialTransformer) IRMutator \<Rightarrow> ('stmt, 'h TermExpander) IRMutator
   \<Rightarrow> 'stmt \<Rightarrow> error + 'stmt" where
  "IRSimplifier_simplify_Stmt new_HashProvider transformer expander s =
     (let simplifier = \<lparr>transformer_hasher = new_HashProvider\<rparr> in
      case transformer s simplifier of
        Inl err \<Rightarrow> Inl err
      | Inr (s1, simplifier1) \<Rightarrow>
          (let expander0 = \<lparr>expander_simplifier = simplifier1\<rparr> in
           case expander s1 expander0 of
             Inl err \<Rightarrow> Inl err
           | Inr (s2, expander1) \<Rightarrow> Inr s2))"

section \<open>Auxiliary facts\<close>

lemma promoteTypesVec_s_loop_not_first:
  "promoteTypesVec_s_loop promoteTypes v t False = fold (\<lambda>x t. promoteTypes t (dtype x)) v t"
  by (induction v arbitrary: t) simp_all

lemma promoteTypesMap_loop_not_first:
  "promoteTypesMap_loop promoteTypes m t False =
     fold (\<lambda>x t. promoteTypes t (dtype (snd x))) m t"
  by (induction m arbitrary: t) simp_all

lemma addComponent_append: "addComponent variables es = variables @ es"
  by (induction es arbitrary: variables) simp_all

lemma addTerm_append: "addTerm variables ts = variables @ ts"
  by (induction ts arbitrary: variables) simp_all

lemma fold_push_back:
  "fold (\<lambda>p variables. variables @ [snd p]) varmap acc = acc @ map snd varmap"
  by (induction varmap arbitrary: acc) simp_all


lemma mutateBinaryOp_lhs_fails:
  "mutator lhs m = Inl err \<Longrightarrow>
   mutateBinaryOp promoteTypes evaluateOp op d lhs rhs mutator option m = Inl err"
  by (simp add: mutateBinaryOp_def)

lemma mutateBinaryOp_rhs_fails:
  "mutator lhs m = Inr (lhs_new, m1) \<Longrightarrow> mutator rhs m1 = Inl err \<Longrightarrow>
   mutateBinaryOp promoteTypes evaluateOp op d lhs rhs mutator option m = Inl err"
  by (simp add: mutateBinaryOp_def)

lemma mutateBinaryOp_returns:
  assumes "mutator lhs m = Inr (lhs_new, m1)" and "mutator rhs m1 = Inr (rhs_new, m2)"
    and "newBinaryOpOfType promoteTypes (expr_type op) lhs_new rhs_new option = Inr rebuilt"
  shows "mutateBinaryOp promoteTypes evaluateOp op d lhs rhs mutator option m =
     (let node = (if lhs_new = lhs \<and> rhs_new = rhs then BinaryOp op d lhs rhs else rebuilt)
      in if isConstant lhs_new \<and> isConstant rhs_new
         then (case evaluateOp node of Inl err \<Rightarrow> Inl err | Inr folded \<Rightarrow> Inr (folded, m2))
         else Inr (node, m2))"
  using assms by (auto simp: mutateBinaryOp_def Let_def)

text \<open>The constructors that take a vector or a map never evaluate a \<^verbatim>\<open>CHECK\<close>; the
  variadic ones fail exactly on a scalar that is not constant.\<close>

lemma constructors_and_CHECK:
  "Term_vector promoteTypes hasher s v =
     Inr (Term (promoteTypesVec_s promoteTypes s v) s (Term_sort hasher v)) \<and>
   Term_map promoteTypes hasher s varmap =
     Inr (Term (promoteTypesMap promoteTypes s varmap) s (Term_sort hasher (map snd varmap))) \<and>
   Polynomial_vector promoteTypes hasher hash_combine s ts =
     Inr (Polynomial (promoteTypesVec_s promoteTypes s (map TermNode ts)) s
            (Polynomial_sort hasher hash_combine ts)) \<and>
   Polynomial_map promoteTypes hasher hash_combine s termmap =
     Inr (Polynomial
            (promoteTypesMap promoteTypes s (map (\<lambda>p. (fst p, TermNode (snd p))) termmap)) s
            (Polynomial_sort hasher hash_combine (map snd termmap))) \<and>
   Term_variadic promoteTypes hasher s v =
     (if isConstant s
      then Inr (Term (promoteTypesVar promoteTypes s v) s (Term_sort hasher v))
      else Inl CHECK_failed) \<and>
   Polynomial_variadic promoteTypes hasher hash_combine s t ts =
     (if isConstant s
      then Inr (Polynomial (promoteTypesVar promoteTypes s (map TermNode (t # ts))) s
                  (Polynomial_sort hasher hash_combine (t # ts)))
      else Inl CHECK_failed)"
  by (simp add: Term_vector_def Term_map_def Polynomial_vector_def Polynomial_map_def
      Term_variadic_def Polynomial_variadic_def addComponent_append addTerm_append
      fold_push_back)

section \<open>The two passes of simplify\<close>

text \<open>
  Claim C1. \<^verbatim>\<open>IRSimplifier::simplify(e)\<close> runs a newly constructed PolynomialTransformer
  over \<open>e\<close>, then a newly constructed TermExpander, bound to the transformer as the
  first pass left it, over the transformer's output, and returns the expander's output;
  a failure of either pass is the failure of the call. The overload on handles wraps
  that result, and the overload on statements runs the same two passes.
\<close>

theorem simplify_runs_transformer_then_expander:
  "(\<forall>err. transformer e \<lparr>transformer_hasher = new_HashProvider\<rparr> = Inl err \<longrightarrow>
      IRSimplifier_simplify new_HashProvider transformer expander e = Inl err) \<and>
   (\<forall>e1 simplifier1.
      transformer e \<lparr>transformer_hasher = new_HashProvider\<rparr> = Inr (e1, simplifier1) \<longrightarrow>
      IRSimplifier_simplify new_HashProvider transformer expander e =
        (case expander e1 \<lparr>expander_simplifier = simplifier1\<rparr> of
           Inl err \<Rightarrow> Inl err
         | Inr (e2, expander1) \<Rightarrow> Inr e2)) \<and>
   (\<forall>e'. IRSimplifier_simplify new_HashProvider transformer expander e = Inr e' \<longrightarrow>
      IRSimplifier_simplify_ExprHandle new_HashProvider transformer expander (ExprHandle e)
        = Inr (ExprHandle e')) \<and>
   (\<forall>err. stmt_transformer s \<lparr>transformer_hasher = new_HashProvider\<rparr> = Inl err \<longrightarrow>
      IRSimplifier_simplify_Stmt new_HashProvider stmt_transformer stmt_expander s = Inl err) \<and>
   (\<forall>s1 simplifier1.
      stmt_transformer s \<lparr>transformer_hasher = new_HashProvider\<rparr> = Inr (s1, simplifier1) \<longrightarrow>
      IRSimplifier_simplify_Stmt new_HashProvider stmt_transformer stmt_expander s =
        (case stmt_expander s1 \<lparr>expander_simplifier = simplifier1\<rparr> of
           Inl err \<Rightarrow> Inl err
         | Inr (s2, expander1) \<Rightarrow> Inr s2))"
  by (simp add: IRSimplifier_simplify_def IRSimplifier_simplify_Stmt_def
      IRSimplifier_simplify_ExprHandle_def)

text \<open>
  An instance: a first pass that wraps the expression into a Term with scalar 1 and
  counts in its state, a second pass that unwraps a Term; on statements (strings
  here), the second pass reads the count the first pass left in the transformer.
\<close>

theorem simplify_runs_transformer_then_expander_witness:
  "IRSimplifier_simplify (0::nat)
     (\<lambda>e m. Inr (TermNode (Term (dtype e) (Imm (dtype e) 1) [e]),
                 \<lparr>transformer_hasher = transformer_hasher m + 1\<rparr>))
     (\<lambda>e x. Inr (case e of TermNode t \<Rightarrow> hd (term_variables t) | _ \<Rightarrow> e, x))
     (Var (Dtype Int_t 1) ''x'')
   = Inr (Var (Dtype Int_t 1) ''x'') \<and>
   IRSimplifier_simplify_Stmt (0::nat)
     (\<lambda>s m. Inr (s @ ''1'', \<lparr>transformer_hasher = transformer_hasher m + 1\<rparr>))
     (\<lambda>s x. Inr (s @ (if transformer_hasher (expander_simplifier x) = 1 then ''2'' else ''?''),
                 x))
     ''s''
   = Inr ''s12''"
  using simplify_runs_transformer_then_expander
    [of "\<lambda>e m. Inr (TermNode (Term (dtype e) (Imm (dtype e) 1) [e]),
                    \<lparr>transformer_hasher = transformer_hasher m + 1\<rparr>)"
      "Var (Dtype Int_t 1) ''x''" "0::nat"
      "\<lambda>e x. Inr (case e of TermNode t \<Rightarrow> hd (term_variables t) | _ \<Rightarrow> e, x)"
      "\<lambda>s m. Inr (s @ ''1'', \<lparr>transformer_hasher = transformer_hasher m + 1\<rparr>)" "''s''"
      "\<lambda>s x. Inr (s @ (if transformer_hasher (expander_simplifier x) = 1 then ''2'' else ''?''),
                  x)"]
  by simp

section \<open>The generic binary fold\<close>

text \<open>
  Claim C2. On a Mod, And, Xor, Lshift or Rshift node, \<^verbatim>\<open>PolynomialTransformer::mutate\<close>
  mutates the left child, then the right child (a failure of either is the failure of
  the call). The node it goes on with is the original node when neither child changed
  and a node of the same kind rebuilt from the mutated children otherwise. That node is
  handed to \<open>evaluateOp\<close> when both mutated children are constant, and returned as it is
  when one of them is not.
\<close>

theorem mutate_Mod_And_Xor_Lshift_Rshift:
  assumes "op \<in> {Mod, And, Xor, Lshift, Rshift}"
  shows
  "(\<forall>err. this lhs m = Inl err \<longrightarrow>
      PolynomialTransformer_mutate promoteTypes evaluateOp mutate_outside this op d lhs rhs m
        = Inl err) \<and>
   (\<forall>lhs_new m1 err. this lhs m = Inr (lhs_new, m1) \<longrightarrow> this rhs m1 = Inl err \<longrightarrow>
      PolynomialTransformer_mutate promoteTypes evaluateOp mutate_outside this op d lhs rhs m
        = Inl err) \<and>
   (\<forall>lhs_new m1 rhs_new m2.
      this lhs m = Inr (lhs_new, m1) \<longrightarrow> this rhs m1 = Inr (rhs_new, m2) \<longrightarrow>
      PolynomialTransformer_mutate promoteTypes evaluateOp mutate_outside this op d lhs rhs m =
        (let node = (if lhs_new = lhs \<and> rhs_new = rhs then BinaryOp op d lhs rhs
                     else BinaryOp op (promoteTypes (dtype lhs_new) (dtype rhs_new))
                            lhs_new rhs_new)
         in if isConstant lhs_new \<and> isConstant rhs_new
            then (case evaluateOp node of
                    Inl err \<Rightarrow> Inl err
                  | Inr folded \<Rightarrow> Inr (folded, m2))
            else Inr (node, m2)))"
proof -
  have dispatch:
    "PolynomialTransformer_mutate promoteTypes evaluateOp mutate_outside this op d lhs rhs m =
       mutateBinaryOp promoteTypes evaluateOp op d lhs rhs this False m"
    using assms by auto
  have rebuilt: "newBinaryOpOfType promoteTypes (expr_type op) l r False =
      Inr (BinaryOp op (promoteTypes (dtype l) (dtype r)) l r)" for l r
    using assms by auto
  show ?thesis
    unfolding dispatch
    by (intro conjI allI impI)
      (simp_all add: mutateBinaryOp_lhs_fails mutateBinaryOp_rhs_fails
        mutateBinaryOp_returns [OF _ _ rebuilt])
qed

text \<open>
  Three instances: \<open>x % 3\<close> with children that stay as they are is returned as it is;
  \<open>7 % 3\<close> is folded to the literal 1; in \<open>(7 % 3) ^ x\<close> the left child changes to the
  literal 1 and the Xor is rebuilt around it.
\<close>

theorem mutate_Mod_And_Xor_Lshift_Rshift_witness:
  "PolynomialTransformer_mutate (\<lambda>a b. a) evaluateOp_literals
     (\<lambda>op d l r m. Inr (BinaryOp op d l r, m)) (\<lambda>e m. Inr (e, m))
     Mod (Dtype Int_t 1) (Var (Dtype Int_t 1) ''x'') (Imm (Dtype Int_t 1) 3)
     \<lparr>transformer_hasher = (0::nat)\<rparr>
   = Inr (BinaryOp Mod (Dtype Int_t 1) (Var (Dtype Int_t 1) ''x'') (Imm (Dtype Int_t 1) 3),
          \<lparr>transformer_hasher = 0\<rparr>) \<and>
   PolynomialTransformer_mutate (\<lambda>a b. a) evaluateOp_literals
     (\<lambda>op d l r m. Inr (BinaryOp op d l r, m)) (\<lambda>e m. Inr (e, m))
     Mod (Dtype Int_t 1) (Imm (Dtype Int_t 1) 7) (Imm (Dtype Int_t 1) 3)
     \<lparr>transformer_hasher = (0::nat)\<rparr>
   = Inr (Imm (Dtype Int_t 1) 1, \<lparr>transformer_hasher = 0\<rparr>) \<and>
   PolynomialTransformer_mutate (\<lambda>a b. a) evaluateOp_literals
     (\<lambda>op d l r m. Inr (BinaryOp op d l r, m))
     (\<lambda>e m. Inr (if e = BinaryOp Mod (Dtype Int_t 1) (Imm (Dtype Int_t 1) 7)
                          (Imm (Dtype Int_t 1) 3)
                   then Imm (Dtype Int_t 1) 1 else e, m))
     Xor (Dtype Int_t 1)
     (BinaryOp Mod (Dtype Int_t 1) (Imm (Dtype Int_t 1) 7) (Imm (Dtype Int_t 1) 3))
     (Var (Dtype Int_t 1) ''x'') \<lparr>transformer_hasher = (0::nat)\<rparr>
   = Inr (BinaryOp Xor (Dtype Int_t 1) (Imm (Dtype Int_t 1) 1) (Var (Dtype Int_t 1) ''x''),
          \<lparr>transformer_hasher = 0\<rparr>)"
proof -
  let ?d = "Dtype Int_t 1"
  let ?m = "\<lparr>transformer_hasher = (0::nat)\<rparr>"
  let ?out = "\<lambda>op d l r (m :: nat PolynomialTransformer).
      Inr (BinaryOp op d l r, m) :: error + Expr \<times> nat PolynomialTransformer"
  let ?leaf = "\<lambda>e (m :: nat PolynomialTransformer).
      Inr (e, m) :: error + Expr \<times> nat PolynomialTransformer"
  let ?fold = "\<lambda>e (m :: nat PolynomialTransformer).
      Inr (if e = BinaryOp Mod ?d (Imm ?d 7) (Imm ?d 3) then Imm ?d 1 else e, m)
        :: error + Expr \<times> nat PolynomialTransformer"
  have in_set: "Mod \<in> {Mod, And, Xor, Lshift, Rshift}" "Xor \<in> {Mod, And, Xor, Lshift, Rshift}"
    by simp_all
  note unchanged = mutate_Mod_And_Xor_Lshift_Rshift
    [OF in_set(1), of ?leaf "Var ?d ''x''" ?m "\<lambda>a b. a" evaluateOp_literals ?out ?d "Imm ?d 3"]
  note folded = mutate_Mod_And_Xor_Lshift_Rshift
    [OF in_set(1), of ?leaf "Imm ?d 7" ?m "\<lambda>a b. a" evaluateOp_literals ?out ?d "Imm ?d 3"]
  note rebuilt = mutate_Mod_And_Xor_Lshift_Rshift
    [OF in_set(2), of ?fold "BinaryOp Mod ?d (Imm ?d 7) (Imm ?d 3)" ?m "\<lambda>a b. a"
      evaluateOp_literals ?out ?d "Var ?d ''x''"]
  show ?thesis using unchanged folded rebuilt by simp
qed

text \<open>
  Claim C3, as stated: the result of \<^verbatim>\<open>mutate\<close> on a Max or Min node carries the flag
  of the input node. It fails where both mutated children are constant:
  \<open>Max(1, 2, propagate_nans = true)\<close> comes back as the literal 2, which has no flag.
\<close>

theorem mutate_Max_of_literals_is_a_literal:
  "PolynomialTransformer_mutate (\<lambda>a b. a) evaluateOp_literals
     (\<lambda>op d l r m. Inr (BinaryOp op d l r, m)) (\<lambda>e m. Inr (e, m))
     (MaxOp True) (Dtype Int_t 1) (Imm (Dtype Int_t 1) 1) (Imm (Dtype Int_t 1) 2)
     \<lparr>transformer_hasher = (0::nat)\<rparr>
   = Inr (Imm (Dtype Int_t 1) 2, \<lparr>transformer_hasher = 0\<rparr>)"
  by (simp add: mutateBinaryOp_def)

text \<open>
  Claim C3, amended. On a Max or Min node with flag \<open>pn\<close>, once both children are
  mutated: when the mutated children are not both constant, the result is the original
  node if neither child changed and otherwise a node of the same class rebuilt from
  the mutated children, and in both cases its operator is the input's, flag included;
  when both are constant, the result is what \<open>evaluateOp\<close> makes of that node.
\<close>

theorem mutate_Max_Min_keeps_propagate_nans:
  assumes "op = MaxOp pn \<or> op = MinOp pn"
    and "this lhs m = Inr (lhs_new, m1)"
    and "this rhs m1 = Inr (rhs_new, m2)"
  shows
  "propagate_nans op = pn \<and>
   (\<not> (isConstant lhs_new \<and> isConstant rhs_new) \<longrightarrow>
      PolynomialTransformer_mutate promoteTypes evaluateOp mutate_outside this op d lhs rhs m =
        Inr (if lhs_new = lhs \<and> rhs_new = rhs then BinaryOp op d lhs rhs
             else BinaryOp op (promoteTypes (dtype lhs_new) (dtype rhs_new)) lhs_new rhs_new,
             m2)) \<and>
   (isConstant lhs_new \<and> isConstant rhs_new \<longrightarrow>
      PolynomialTransformer_mutate promoteTypes evaluateOp mutate_outside this op d lhs rhs m =
        (case evaluateOp
                (if lhs_new = lhs \<and> rhs_new = rhs then BinaryOp op d lhs rhs
                 else BinaryOp op (promoteTypes (dtype lhs_new) (dtype rhs_new)) lhs_new rhs_new)
         of Inl err \<Rightarrow> Inl err | Inr folded \<Rightarrow> Inr (folded, m2)))"
proof -
  have dispatch:
    "PolynomialTransformer_mutate promoteTypes evaluateOp mutate_outside this op d lhs rhs m =
       mutateBinaryOp promoteTypes evaluateOp op d lhs rhs this pn m"
    using assms(1) by auto
  have rebuilt: "newBinaryOpOfType promoteTypes (expr_type op) lhs_new rhs_new pn =
      Inr (BinaryOp op (promoteTypes (dtype lhs_new) (dtype rhs_new)) lhs_new rhs_new)"
    using assms(1) by auto
  have flag: "propagate_nans op = pn"
    using assms(1) by auto
  show ?thesis
    unfolding dispatch mutateBinaryOp_returns [OF assms(2,3) rebuilt]
    using flag by (simp add: Let_def)
qed

text \<open>
  Two instances: \<open>Min(x, 2, true)\<close> with unchanged children is returned as it is; in
  \<open>Max(7 % 3, x, true)\<close> the left child changes and the rebuilt Max has the flag.
\<close>

theorem mutate_Max_Min_keeps_propagate_nans_witness:
  "PolynomialTransformer_mutate (\<lambda>a b. a) evaluateOp_literals
     (\<lambda>op d l r m. Inr (BinaryOp op d l r, m)) (\<lambda>e m. Inr (e, m))
     (MinOp True) (Dtype Float_t 1) (Var (Dtype Float_t 1) ''x'') (Imm (Dtype Float_t 1) 2)
     \<lparr>transformer_hasher = (0::nat)\<rparr>
   = Inr (BinaryOp (MinOp True) (Dtype Float_t 1) (Var (Dtype Float_t 1) ''x'')
            (Imm (Dtype Float_t 1) 2), \<lparr>transformer_hasher = 0\<rparr>) \<and>
   PolynomialTransformer_mutate (\<lambda>a b. a) evaluateOp_literals
     (\<lambda>op d l r m. Inr (BinaryOp op d l r, m))
     (\<lambda>e m. Inr (if e = BinaryOp Mod (Dtype Int_t 1) (Imm (Dtype Int_t 1) 7)
                          (Imm (Dtype Int_t 1) 3)
                   then Imm (Dtype Int_t 1) 1 else e, m))
     (MaxOp True) (Dtype Int_t 1)
     (BinaryOp Mod (Dtype Int_t 1) (Imm (Dtype Int_t 1) 7) (Imm (Dtype Int_t 1) 3))
     (Var (Dtype Int_t 1) ''x'') \<lparr>transformer_hasher = (0::nat)\<rparr>
   = Inr (BinaryOp (MaxOp True) (Dtype Int_t 1) (Imm (Dtype Int_t 1) 1)
            (Var (Dtype Int_t 1) ''x''), \<lparr>transformer_hasher = 0\<rparr>)"
proof -
  let ?d = "Dtype Int_t 1"
  let ?f = "Dtype Float_t 1"
  let ?m = "\<lparr>transformer_hasher = (0::nat)\<rparr>"
  let ?out = "\<lambda>op d l r (m :: nat PolynomialTransformer).
      Inr (BinaryOp op d l r, m) :: error + Expr \<times> nat PolynomialTransformer"
  let ?leaf = "\<lambda>e (m :: nat PolynomialTransformer).
      Inr (e, m) :: error + Expr \<times> nat PolynomialTransformer"
  let ?fold = "\<lambda>e (m :: nat PolynomialTransformer).
      Inr (if e = BinaryOp Mod ?d (Imm ?d 7) (Imm ?d 3) then Imm ?d 1 else e, m)
        :: error + Expr \<times> nat PolynomialTransformer"
  note a = mutate_Max_Min_keeps_propagate_nans
    [where op = "MinOp True" and pn = True and this = ?leaf and lhs = "Var ?f ''x''"
      and rhs = "Imm ?f 2" and m = ?m and ?m1.0 = ?m and ?m2.0 = ?m
      and lhs_new = "Var ?f ''x''" and rhs_new = "Imm ?f 2" and promoteTypes = "\<lambda>a b. a"
      and evaluateOp = evaluateOp_literals and mutate_outside = ?out and d = ?f]
  note b = mutate_Max_Min_keeps_propagate_nans
    [where op = "MaxOp True" and pn = True and this = ?fold
      and lhs = "BinaryOp Mod ?d (Imm ?d 7) (Imm ?d 3)" and rhs = "Var ?d ''x''"
      and m = ?m and ?m1.0 = ?m and ?m2.0 = ?m
      and lhs_new = "Imm ?d 1" and rhs_new = "Var ?d ''x''" and promoteTypes = "\<lambda>a b. a"
      and evaluateOp = evaluateOp_literals and mutate_outside = ?out and d = ?d]
  show ?thesis using a b by simp
qed

section \<open>Dtype promotion\<close>

text \<open>
  Claim C4. The promoted dtype of an empty vector does not exist: \<^verbatim>\<open>promoteTypesVec(v)\<close>
  throws \<^verbatim>\<open>malformed_input\<close> on it, and the constructor of a Polynomial from Terms
  alone lets that failure through, so it builds nothing from the empty list. With a
  scalar, the empty list is accepted and the dtype is the scalar's.
\<close>

theorem promoteTypesVec_empty_malformed_input:
  "promoteTypesVec promoteTypes [] = Inl (malformed_input ''empty list of types'') \<and>
   Polynomial_terms promoteTypes hasher hash_combine [] =
     Inl (malformed_input ''empty list of types'') \<and>
   Term_vector promoteTypes hasher s [] = Inr (Term (dtype s) s []) \<and>
   Polynomial_vector promoteTypes hasher hash_combine s [] = Inr (Polynomial (dtype s) s [])"
  by (simp add: promoteTypesVec_def Polynomial_terms_def Term_vector_def Polynomial_vector_def
      promoteTypesVec_s_def Term_sort_def Polynomial_sort_def)

theorem promoteTypesVec_empty_malformed_input_witness:
  "Polynomial_terms (\<lambda>a b. a) (\<lambda>e. 0) (\<lambda>hs. 0) [] =
     Inl (malformed_input ''empty list of types'') \<and>
   Polynomial_vector (\<lambda>a b. a) (\<lambda>e. 0) (\<lambda>hs. 0) (Imm (Dtype Int_t 1) 0) [] =
     Inr (Polynomial (Dtype Int_t 1) (Imm (Dtype Int_t 1) 0) [])"
  using promoteTypesVec_empty_malformed_input
    [of "\<lambda>a b. a" "\<lambda>e. 0" "\<lambda>hs. 0" "Imm (Dtype Int_t 1) 0"]
  by simp

text \<open>
  Claim C6. In \<^verbatim>\<open>promoteTypesVar(e, es...)\<close> with a non-empty rest, the right-hand
  side is the promoted dtype of the rest; a constant \<open>e\<close> takes its own scalar type
  with the lane count of the right-hand side, and only then are the two promoted. An
  \<open>e\<close> that is not constant is promoted with its own dtype, and the last argument
  contributes its dtype as it is.
\<close>

theorem promoteTypesVar_constant_takes_rhs_lanes:
  "promoteTypesVar promoteTypes e [] = dtype e \<and>
   (isConstant e \<longrightarrow>
      promoteTypesVar promoteTypes e (e' # es) =
        promoteTypes (Dtype (scalar_type (dtype e)) (lanes (promoteTypesVar promoteTypes e' es)))
          (promoteTypesVar promoteTypes e' es)) \<and>
   (\<not> isConstant e \<longrightarrow>
      promoteTypesVar promoteTypes e (e' # es) =
        promoteTypes (dtype e) (promoteTypesVar promoteTypes e' es))"
  by (simp add: Let_def)

text \<open>
  An instance, with a promotion that answers Float when either side is Float and keeps
  the lanes of its left argument: the one-lane literal 2 next to a four-lane \<open>x\<close> gives
  four lanes, a one-lane variable in its place gives one.
\<close>

theorem promoteTypesVar_constant_takes_rhs_lanes_witness:
  "isConstant (Imm (Dtype Int_t 1) 2) \<and>
   promoteTypesVar
     (\<lambda>a b. Dtype (if scalar_type a = Float_t \<or> scalar_type b = Float_t then Float_t else Int_t)
               (lanes a))
     (Imm (Dtype Int_t 1) 2) [Var (Dtype Float_t 4) ''x'']
   = Dtype Float_t 4 \<and>
   \<not> isConstant (Var (Dtype Int_t 1) ''s'') \<and>
   promoteTypesVar
     (\<lambda>a b. Dtype (if scalar_type a = Float_t \<or> scalar_type b = Float_t then Float_t else Int_t)
               (lanes a))
     (Var (Dtype Int_t 1) ''s'') [Var (Dtype Float_t 4) ''x'']
   = Dtype Float_t 1"
  using promoteTypesVar_constant_takes_rhs_lanes
    [of "\<lambda>a b. Dtype (if scalar_type a = Float_t \<or> scalar_type b = Float_t then Float_t else Int_t)
                  (lanes a)"
        "Imm (Dtype Int_t 1) 2" "Var (Dtype Float_t 4) ''x''" "[]"]
    promoteTypesVar_constant_takes_rhs_lanes
    [of "\<lambda>a b. Dtype (if scalar_type a = Float_t \<or> scalar_type b = Float_t then Float_t else Int_t)
                  (lanes a)"
        "Var (Dtype Int_t 1) ''s''" "Var (Dtype Float_t 4) ''x''" "[]"]
  by simp

text \<open>
  Claim C10. \<^verbatim>\<open>promoteTypesVec(s, v)\<close> and \<^verbatim>\<open>promoteTypesMap(s, m)\<close> start from the
  scalar's scalar type with the lane count of the first element processed, whether the
  scalar is constant or not (\<open>isConstant\<close> is not consulted), and from there promote
  with every element in turn, the first one included. On no elements the result is the
  scalar's dtype.
\<close>

theorem promoteTypes_scalar_takes_first_lanes:
  "promoteTypesVec_s promoteTypes s [] = dtype s \<and>
   promoteTypesVec_s promoteTypes s (e # v) =
     fold (\<lambda>x t. promoteTypes t (dtype x)) (e # v)
       (Dtype (scalar_type (dtype s)) (lanes (dtype e))) \<and>
   promoteTypesMap promoteTypes s [] = dtype s \<and>
   promoteTypesMap promoteTypes s (p # m) =
     fold (\<lambda>x t. promoteTypes t (dtype (snd x))) (p # m)
       (Dtype (scalar_type (dtype s)) (lanes (dtype (snd p))))"
  by (simp add: promoteTypesVec_s_def promoteTypesMap_def promoteTypesVec_s_loop_not_first
      promoteTypesMap_loop_not_first)

text \<open>An instance with a scalar that is a one-lane variable: the result has the four
  lanes of the first element.\<close>

theorem promoteTypes_scalar_takes_first_lanes_witness:
  "promoteTypesVec_s
     (\<lambda>a b. Dtype (if scalar_type a = Float_t \<or> scalar_type b = Float_t then Float_t else Int_t)
               (lanes a))
     (Var (Dtype Int_t 1) ''s'') [Var (Dtype Float_t 4) ''x'', Var (Dtype Int_t 4) ''y'']
   = Dtype Float_t 4 \<and>
   promoteTypesMap
     (\<lambda>a b. Dtype (if scalar_type a = Float_t \<or> scalar_type b = Float_t then Float_t else Int_t)
               (lanes a))
     (Var (Dtype Int_t 1) ''s'')
     [(7, Var (Dtype Float_t 4) ''x''), (3, Var (Dtype Int_t 4) ''y'')]
   = Dtype Float_t 4"
  using promoteTypes_scalar_takes_first_lanes
    [of "\<lambda>a b. Dtype (if scalar_type a = Float_t \<or> scalar_type b = Float_t then Float_t else Int_t)
                  (lanes a)"
        "Var (Dtype Int_t 1) ''s''" "Var (Dtype Float_t 4) ''x''" "[Var (Dtype Int_t 4) ''y'']"
        "(7, Var (Dtype Float_t 4) ''x'')" "[(3, Var (Dtype Int_t 4) ''y'')]"]
  by simp

section \<open>The constructors of Term and Polynomial\<close>

text \<open>
  Claim C5 says that every constructor aborts on a scalar that is not constant. The
  variadic constructor does; the constructors from a vector do not: with the variable
  \<open>x\<close> in the scalar slot they return a Term, and a Polynomial, whose scalar is \<open>x\<close>.
\<close>

theorem Term_vector_accepts_nonconstant_scalar:
  "isConstant (Var (Dtype Int_t 1) ''x'') = False \<and>
   Term_variadic (\<lambda>a b. a) (\<lambda>e. 0) (Var (Dtype Int_t 1) ''x'') [Var (Dtype Int_t 1) ''y'']
     = Inl CHECK_failed \<and>
   Term_vector (\<lambda>a b. a) (\<lambda>e. 0) (Var (Dtype Int_t 1) ''x'') [Var (Dtype Int_t 1) ''y'']
     = Inr (Term (Dtype Int_t 1) (Var (Dtype Int_t 1) ''x'') [Var (Dtype Int_t 1) ''y'']) \<and>
   Polynomial_vector (\<lambda>a b. a) (\<lambda>e. 0) (\<lambda>hs. 0) (Var (Dtype Int_t 1) ''x'')
       [Term (Dtype Int_t 1) (Imm (Dtype Int_t 1) 2) [Var (Dtype Int_t 1) ''y'']]
     = Inr (Polynomial (Dtype Int_t 1) (Var (Dtype Int_t 1) ''x'')
              [Term (Dtype Int_t 1) (Imm (Dtype Int_t 1) 2) [Var (Dtype Int_t 1) ''y'']])"
  using constructors_and_CHECK
    [of "\<lambda>a b. a" "\<lambda>e. 0" "Var (Dtype Int_t 1) ''x''" "[Var (Dtype Int_t 1) ''y'']" _
      "\<lambda>hs. 0" "[Term (Dtype Int_t 1) (Imm (Dtype Int_t 1) 2) [Var (Dtype Int_t 1) ''y'']]"]
  by (simp add: promoteTypesVec_s_def Term_sort_def Polynomial_sort_def)

text \<open>The loop of \<^verbatim>\<open>promoteTypesVec(v)\<close> is a left fold of \<^verbatim>\<open>promoteTypes\<close> over the
  dtypes of the elements.\<close>

lemma promoteTypesVec_loop_fold:
  "promoteTypesVec_loop promoteTypes v t = fold (\<lambda>x t. promoteTypes t (dtype x)) v t"
  by (induction v arbitrary: t) simp_all

lemma fold_dtype_TermNode:
  "fold (\<lambda>x t. promoteTypes t (dtype x)) (map TermNode ts) t =
     fold (\<lambda>x t. promoteTypes t (term_dtype x)) ts t"
  by (induction ts arbitrary: t) simp_all

lemma promoteTypesVec_Terms:
  "promoteTypesVec promoteTypes (map TermNode (t # ts)) =
     Inr (fold (\<lambda>x d. promoteTypes d (term_dtype x)) (t # ts) (term_dtype t))"
  by (simp add: promoteTypesVec_def promoteTypesVec_loop_fold fold_dtype_TermNode)

lemma Polynomial_terms_nonempty:
  "Polynomial_terms promoteTypes hasher hash_combine (t # ts) =
     Inr (Polynomial
            (fold (\<lambda>x d. promoteTypes d (term_dtype x)) (t # ts) (term_dtype t))
            (getImmediateByType
               (fold (\<lambda>x d. promoteTypes d (term_dtype x)) (t # ts) (term_dtype t)) 0)
            (Polynomial_sort hasher hash_combine (t # ts)))"
  unfolding Polynomial_terms_def promoteTypesVec_Terms by simp

text \<open>
  Claim C9. \<^verbatim>\<open>Polynomial(hasher, terms)\<close> on a non-empty list of Terms returns a
  Polynomial whose dtype is the promotion of the Terms' dtypes (starting from the first
  Term's dtype, \<^verbatim>\<open>promoteTypes\<close> is applied with the dtype of every Term in turn, the
  first one included) and whose scalar is \<^verbatim>\<open>getImmediateByType(dtype(), 0)\<close>: the
  literal 0 of that promoted dtype, a constant. Whenever the constructor returns, the
  list was not empty and the scalar is the literal 0 of the Polynomial's own dtype.
\<close>

theorem Polynomial_terms_scalar_is_zero:
  "Polynomial_terms promoteTypes hasher hash_combine (t # ts) =
     Inr (Polynomial
            (fold (\<lambda>x d. promoteTypes d (term_dtype x)) (t # ts) (term_dtype t))
            (Imm (fold (\<lambda>x d. promoteTypes d (term_dtype x)) (t # ts) (term_dtype t)) 0)
            (Polynomial_sort hasher hash_combine (t # ts))) \<and>
   promoteTypesVec promoteTypes (map TermNode (t # ts)) =
     Inr (fold (\<lambda>x d. promoteTypes d (term_dtype x)) (t # ts) (term_dtype t)) \<and>
   (\<forall>p. Polynomial_terms promoteTypes hasher hash_combine terms = Inr p \<longrightarrow>
      terms \<noteq> [] \<and>
      promoteTypesVec promoteTypes (map TermNode terms) = Inr (poly_dtype p) \<and>
      poly_scalar p = getImmediateByType (poly_dtype p) 0 \<and>
      poly_scalar p = Imm (poly_dtype p) 0 \<and>
      isConstant (poly_scalar p) \<and>
      dtype (poly_scalar p) = poly_dtype p) \<and>
   (terms \<noteq> [] \<longrightarrow> (\<exists>p. Polynomial_terms promoteTypes hasher hash_combine terms = Inr p))"
proof (intro conjI allI impI)
  show "Polynomial_terms promoteTypes hasher hash_combine (t # ts) =
     Inr (Polynomial
            (fold (\<lambda>x d. promoteTypes d (term_dtype x)) (t # ts) (term_dtype t))
            (Imm (fold (\<lambda>x d. promoteTypes d (term_dtype x)) (t # ts) (term_dtype t)) 0)
            (Polynomial_sort hasher hash_combine (t # ts)))"
    using Polynomial_terms_nonempty [of promoteTypes hasher hash_combine t ts]
    by (simp add: getImmediateByType_def)
  show "promoteTypesVec promoteTypes (map TermNode (t # ts)) =
     Inr (fold (\<lambda>x d. promoteTypes d (term_dtype x)) (t # ts) (term_dtype t))"
    by (rule promoteTypesVec_Terms)
next
  assume "terms \<noteq> []"
  then show "\<exists>p. Polynomial_terms promoteTypes hasher hash_combine terms = Inr p"
    by (cases terms) (simp_all add: Polynomial_terms_nonempty)
next
  fix p
  assume p: "Polynomial_terms promoteTypes hasher hash_combine terms = Inr p"
  then show "terms \<noteq> []"
    by (auto simp: Polynomial_terms_def promoteTypesVec_def)
  from p show "promoteTypesVec promoteTypes (map TermNode terms) = Inr (poly_dtype p)"
    by (auto simp: Polynomial_terms_def split: sum.splits)
  from p show "poly_scalar p = getImmediateByType (poly_dtype p) 0"
    by (auto simp: Polynomial_terms_def split: sum.splits)
  from p show "poly_scalar p = Imm (poly_dtype p) 0"
    by (auto simp: Polynomial_terms_def getImmediateByType_def split: sum.splits)
  from p show "isConstant (poly_scalar p)"
    by (auto simp: Polynomial_terms_def getImmediateByType_def split: sum.splits)
  from p show "dtype (poly_scalar p) = poly_dtype p"
    by (auto simp: Polynomial_terms_def getImmediateByType_def split: sum.splits)
qed

text \<open>
  An instance with a promotion that answers Float when either side is Float: from a
  four-lane Int Term followed by a four-lane Float Term the Polynomial is Float with
  four lanes, and so is its scalar 0; it is not the dtype of the first Term.
\<close>

theorem Polynomial_terms_scalar_is_zero_witness:
  "Polynomial_terms
       (\<lambda>a b. Dtype (if scalar_type a = Float_t \<or> scalar_type b = Float_t then Float_t else Int_t)
                 (lanes a))
       (\<lambda>e. 0) (\<lambda>hs. 0)
       [Term (Dtype Int_t 4) (Imm (Dtype Int_t 1) 2) [Var (Dtype Int_t 4) ''x''],
        Term (Dtype Float_t 4) (Imm (Dtype Float_t 1) 3) [Var (Dtype Float_t 4) ''y'']]
     = Inr (Polynomial (Dtype Float_t 4) (Imm (Dtype Float_t 4) 0)
              [Term (Dtype Int_t 4) (Imm (Dtype Int_t 1) 2) [Var (Dtype Int_t 4) ''x''],
               Term (Dtype Float_t 4) (Imm (Dtype Float_t 1) 3) [Var (Dtype Float_t 4) ''y'']])"
  using Polynomial_terms_scalar_is_zero
    [of "\<lambda>a b. Dtype (if scalar_type a = Float_t \<or> scalar_type b = Float_t then Float_t else Int_t)
                  (lanes a)"
        "\<lambda>e. 0" "\<lambda>hs. 0"
        "Term (Dtype Int_t 4) (Imm (Dtype Int_t 1) 2) [Var (Dtype Int_t 4) ''x'']"
        "[Term (Dtype Float_t 4) (Imm (Dtype Float_t 1) 3) [Var (Dtype Float_t 4) ''y'']]"]
  by (simp add: Polynomial_sort_def Term_hashVars_def)




end
